theory Spec2Isabelle
  imports Complex_Main
begin

section \<open>The sensor logger of \<^verbatim>\<open>src/context/SensorLoggerContext.tsx\<close>\<close>

text \<open>
  The provider component keeps three pieces of React state (\<^verbatim>\<open>log\<close>, \<^verbatim>\<open>logging\<close>,
  \<^verbatim>\<open>sessionId\<close>) and seven mutable refs. Its commands (\<^verbatim>\<open>startNew\<close>, \<^verbatim>\<open>pause\<close>,
  \<^verbatim>\<open>resume\<close>, \<^verbatim>\<open>clear\<close>), its two sensor callbacks and its upload timer are embedded
  here as functions on one record of that state. What the outside world answers
  (the permission dialog, the document store, the clock, the position provider) is
  an argument of the function that asks for it; what the component sends out
  (document-store calls, console lines) is appended to two traces in the record.

  A JavaScript \<^verbatim>\<open>number\<close> is modelled as a \<^typ>\<open>real\<close>: the arithmetic of this part
  of the theory is exact. The binary64 arithmetic of the smoothing step, of the
  distance helper and of the speed derivation, with its roundings and with NaN, is
  treated separately, in the section on double precision.
\<close>

subsection \<open>Data\<close>

text \<open>\<^verbatim>\<open>LogEntry\<close> (source lines 16--25).\<close>

record LogEntry =
  e_x :: real
  e_y :: real
  e_z :: real
  e_timestamp :: real
  e_latitude :: real
  e_longitude :: real
  e_speed :: real
  e_vehicletype :: string

text \<open>The argument of the accelerometer listener.\<close>

record AccelData =
  d_x :: real
  d_y :: real
  d_z :: real

text \<open>
  A position object of the location API: \<^verbatim>\<open>coords.latitude\<close>, \<^verbatim>\<open>coords.longitude\<close>,
  \<^verbatim>\<open>coords.speed\<close> (a number or \<^verbatim>\<open>null\<close>) and \<^verbatim>\<open>timestamp\<close>.
\<close>

record LocationObject =
  c_latitude :: real
  c_longitude :: real
  c_speed :: "real option"
  c_timestamp :: real

text \<open>The value of \<^verbatim>\<open>lastLocationRef\<close> (lines 76--80) and of \<^verbatim>\<open>latestLocation\<close> (lines 82--85).\<close>

record Fix =
  lat :: real
  lng :: real
  time :: real

record LatLng =
  latitude :: real
  longitude :: real

text \<open>The two documents written to the store (lines 238--244 and 100--110).\<close>

record SessionDoc =
  created_at :: real
  session_id :: string
  status :: string
  device_speed_check :: string
  vehicletype :: string

record Batch =
  b_timestamp :: real
  b_data :: "LogEntry list"
  b_y_values :: "real list"
  b_location :: LatLng
  b_speed :: real
  b_vehicletype :: string

text \<open>
  A call to the document store: \<^verbatim>\<open>setDoc\<close> on \<^verbatim>\<open>vibration_logs/<id>\<close> or \<^verbatim>\<open>addDoc\<close> on
  \<^verbatim>\<open>vibration_logs/<id>/data\<close>. The trace pairs each call with whether it succeeded;
  a document exists in the store exactly for the calls paired with \<open>True\<close>.
\<close>

datatype request = SetDoc string SessionDoc | AddDoc string Batch

datatype console_line =
    LogParentCreated string
  | ErrorParentFailed
  | WarnPermission
  | LogUploaded nat
  | WarnUploadFailed

datatype permission = Granted | Denied | Undetermined

text \<open>
  What a ref to a subscription holds once it is not \<^verbatim>\<open>null\<close>: the effect's cleanup
  calls \<^verbatim>\<open>remove\<close> on the object and leaves the ref pointing to it.
\<close>

datatype subscription = Subscribed | Removed

text \<open>
  The state of the provider. The last four fields are what the current run of the
  effect of lines 121--220 holds: its local \<^verbatim>\<open>active\<close>, the values of \<^verbatim>\<open>logging\<close> and
  \<^verbatim>\<open>sessionId\<close> of the render whose closures it captured (the effect depends on
  \<^verbatim>\<open>logging\<close> only, so its timer keeps calling the \<^verbatim>\<open>uploadBatchToFirestore\<close> of that
  render), and whether its interval timer runs.
\<close>

record SensorLogger =
  log_list :: "LogEntry list"
  logging :: bool
  sessionId :: "string option"
  accelerometerSub :: "subscription option"
  locationWatcher :: "subscription option"
  lastLocationRef :: "Fix option"
  latestLocation :: LatLng
  latestSpeed :: real
  sampleBuffer :: "LogEntry list"
  currentVehicleTypeRef :: string
  firestore :: "(request \<times> bool) list"
  console :: "console_line list"
  active :: bool
  effLogging :: bool
  effSessionId :: "string option"
  intervalId :: bool

text \<open>The state after the first render: the effect has run once with \<^verbatim>\<open>logging = false\<close>.\<close>

definition init :: SensorLogger where
  "init = \<lparr> log_list = [], logging = False, sessionId = None,
      accelerometerSub = None, locationWatcher = None, lastLocationRef = None,
      latestLocation = \<lparr> latitude = 0, longitude = 0 \<rparr>, latestSpeed = 0,
      sampleBuffer = [], currentVehicleTypeRef = [],
      firestore = [], console = [],
      active = True, effLogging = False, effSessionId = None, intervalId = False \<rparr>"

subsection \<open>Distance and speed (lines 39--61, 140--176)\<close>

definition deg2rad :: "real \<Rightarrow> real" where
  "deg2rad deg = deg * (pi / 180)"

text \<open>\<^verbatim>\<open>Math.atan2(y, x)\<close> on reals.\<close>

definition atan2 :: "real \<Rightarrow> real \<Rightarrow> real" where
  "atan2 y x =
     (if 0 < x then arctan (y / x)
      else if x < 0 then (if 0 \<le> y then arctan (y / x) + pi else arctan (y / x) - pi)
      else if 0 < y then pi / 2
      else if y < 0 then - (pi / 2)
      else 0)"

text \<open>
  The helper of lines 39--57 in exact arithmetic. There the inner term \<open>a\<close> lies
  between 0 and 1, both square roots exist and the result is the haversine
  distance (shown below). The program computes in binary64, where rounding can
  take \<open>a\<close> above 1; the helper is transcribed a second time, with the roundings
  and with NaN, in the section on double precision.
\<close>

definition getDistanceFromLatLonInMeters :: "real \<Rightarrow> real \<Rightarrow> real \<Rightarrow> real \<Rightarrow> real" where
  "getDistanceFromLatLonInMeters lat1 lon1 lat2 lon2 =
     (let R = 6371;
          dLat = deg2rad (lat2 - lat1);
          dLon = deg2rad (lon2 - lon1);
          a = sin (dLat / 2) * sin (dLat / 2) +
              cos (deg2rad lat1) * cos (deg2rad lat2) * sin (dLon / 2) * sin (dLon / 2);
          c = 2 * atan2 (sqrt a) (sqrt (1 - a));
          d = R * c
      in d * 1000)"

text \<open>
  The haversine formula as it is usually written, for comparison with the helper:
  the great-circle distance in metres, on a sphere of radius 6371 km, between two
  points given by latitude and longitude in degrees.
\<close>

definition haversineMeters :: "real \<Rightarrow> real \<Rightarrow> real \<Rightarrow> real \<Rightarrow> real" where
  "haversineMeters lat1 lon1 lat2 lon2 =
     2 * 6371000 *
       arcsin (sqrt ((sin ((deg2rad lat2 - deg2rad lat1) / 2))\<^sup>2 +
                     cos (deg2rad lat1) * cos (deg2rad lat2) *
                       (sin ((deg2rad lon2 - deg2rad lon1) / 2))\<^sup>2))"

text \<open>
  The value of the local \<^verbatim>\<open>currentSpeedKmh\<close> when line 166 is reached (lines 146--164),
  from \<^verbatim>\<open>coords.speed\<close>, \<^verbatim>\<open>lastLocationRef.current\<close>, the coordinates of the fix and
  its timestamp. The variable starts at 0 and is assigned in two places.
\<close>

definition currentSpeedKmh :: "real option \<Rightarrow> Fix option \<Rightarrow> real \<Rightarrow> real \<Rightarrow> real \<Rightarrow> real" where
  "currentSpeedKmh speed lastLocation lat2 lon2 timestamp =
     (let manual =
        (case lastLocation of
           None \<Rightarrow> 0
         | Some l \<Rightarrow>
             (let distMeters = getDistanceFromLatLonInMeters (lat l) (lng l) lat2 lon2;
                  timeDiffSeconds = (timestamp - time l) / 1000
              in if 0 < timeDiffSeconds then (distMeters / timeDiffSeconds) * 3.6 else 0))
      in case speed of
           None \<Rightarrow> manual
         | Some v \<Rightarrow> if 0 \<le> v then v * 3.6 else manual)"

definition SMOOTHING_FACTOR :: real where
  "SMOOTHING_FACTOR = 0.8"

text \<open>The right-hand side of the assignment of lines 173--175.\<close>

definition smooth :: "real \<Rightarrow> real \<Rightarrow> real" where
  "smooth previousSmoothed newRaw =
     previousSmoothed * (1 - SMOOTHING_FACTOR) + newRaw * SMOOTHING_FACTOR"

text \<open>
  The callback given to \<^verbatim>\<open>watchPositionAsync\<close> (lines 140--176); \<open>now\<close> is what
  \<^verbatim>\<open>Date.now()\<close> returns, used when the fix has a falsy timestamp.
\<close>

definition locationCallback :: "real \<Rightarrow> LocationObject \<Rightarrow> SensorLogger \<Rightarrow> SensorLogger" where
  "locationCallback now location s =
     (let timestamp = (if c_timestamp location \<noteq> 0 then c_timestamp location else now);
          cur = currentSpeedKmh (c_speed location) (lastLocationRef s)
                  (c_latitude location) (c_longitude location) timestamp
      in s\<lparr> latestLocation :=
               \<lparr> latitude = c_latitude location, longitude = c_longitude location \<rparr>,
             lastLocationRef :=
               Some \<lparr> lat = c_latitude location, lng = c_longitude location, time = timestamp \<rparr>,
             latestSpeed := smooth (latestSpeed s) cur \<rparr>)"

subsection \<open>The accelerometer listener (lines 181--202)\<close>

text \<open>
  \<^verbatim>\<open>active\<close> and \<^verbatim>\<open>logging\<close> are the variables the listener closed over: those of the
  effect run that subscribed it.
\<close>

definition accelListener :: "real \<Rightarrow> AccelData \<Rightarrow> SensorLogger \<Rightarrow> SensorLogger" where
  "accelListener now data s =
     (if \<not> active s \<or> \<not> effLogging s then s
      else if latestSpeed s < 5 then s
      else
        (let entry = \<lparr> e_x = d_x data, e_y = d_y data, e_z = d_z data,
               e_timestamp = now,
               e_latitude = latitude (latestLocation s),
               e_longitude = longitude (latestLocation s),
               e_speed = latestSpeed s,
               e_vehicletype =
                 (if currentVehicleTypeRef s \<noteq> [] then currentVehicleTypeRef s else []) \<rparr>
         in s\<lparr> sampleBuffer := sampleBuffer s @ [entry],
                log_list := log_list s @ [entry] \<rparr>))"

subsection \<open>The batch upload (lines 93--119)\<close>

text \<open>JavaScript's \<^verbatim>\<open>!sessionId\<close> on a \<^verbatim>\<open>string | null\<close>: true of \<^verbatim>\<open>null\<close> and of the empty string.\<close>

definition falsy :: "string option \<Rightarrow> bool" where
  "falsy sid = (case sid of None \<Rightarrow> True | Some str \<Rightarrow> str = [])"

text \<open>
  \<open>sid\<close> is the \<^verbatim>\<open>sessionId\<close> of the closure that runs, \<open>ok\<close> whether \<^verbatim>\<open>addDoc\<close>
  resolves (otherwise it rejects and control passes to the \<^verbatim>\<open>catch\<close>). The function
  is taken as one step: nothing runs between the call of \<^verbatim>\<open>addDoc\<close> and its answer.
\<close>

definition uploadBatchToFirestore ::
    "string option \<Rightarrow> real \<Rightarrow> bool \<Rightarrow> SensorLogger \<Rightarrow> SensorLogger" where
  "uploadBatchToFirestore sid now ok s =
     (if falsy sid then s
      else if length (sampleBuffer s) = 0 then s
      else
        (let y_values = map e_y (sampleBuffer s);
             doc = \<lparr> b_timestamp = now, b_data = sampleBuffer s, b_y_values = y_values,
                     b_location = \<lparr> latitude = latitude (latestLocation s),
                                    longitude = longitude (latestLocation s) \<rparr>,
                     b_speed = latestSpeed s,
                     b_vehicletype = currentVehicleTypeRef s \<rparr>;
             call = AddDoc (the sid) doc
         in if ok
            then s\<lparr> firestore := firestore s @ [(call, True)],
                    console := console s @ [LogUploaded (length (sampleBuffer s))],
                    sampleBuffer := [] \<rparr>
            else s\<lparr> firestore := firestore s @ [(call, False)],
                    console := console s @ [WarnUploadFailed] \<rparr>))"

subsection \<open>The effect on \<^verbatim>\<open>logging\<close> (lines 121--220)\<close>

text \<open>
  \<^verbatim>\<open>setupSensors\<close> (lines 124--203); \<open>perm\<close> is the status the permission request
  answers with. It is taken as one step: it finishes before the next command.
\<close>

definition setupSensors :: "permission \<Rightarrow> SensorLogger \<Rightarrow> SensorLogger" where
  "setupSensors perm s =
     (if \<not> effLogging s then s
      else if perm \<noteq> Granted then s\<lparr> console := console s @ [WarnPermission] \<rparr>
      else s\<lparr> locationWatcher := Some Subscribed, accelerometerSub := Some Subscribed \<rparr>)"

text \<open>The function the effect returns (lines 214--219).\<close>

definition cleanup :: "SensorLogger \<Rightarrow> SensorLogger" where
  "cleanup s =
     s\<lparr> active := False,
        accelerometerSub := map_option (\<lambda>_. Removed) (accelerometerSub s),
        locationWatcher := map_option (\<lambda>_. Removed) (locationWatcher s),
        intervalId := False \<rparr>"

text \<open>The body of the effect, run in a render whose state is that of \<open>s\<close>.\<close>

definition effect :: "permission \<Rightarrow> SensorLogger \<Rightarrow> SensorLogger" where
  "effect perm s =
     (let s1 = s\<lparr> active := True, effLogging := logging s, effSessionId := sessionId s \<rparr>;
          s2 = setupSensors perm s1
      in if logging s then s2\<lparr> intervalId := True \<rparr> else s2)"

text \<open>
  React after a command: the component renders again, and when \<^verbatim>\<open>logging\<close> differs
  from the value the effect last ran with, the cleanup and then the effect run.
\<close>

definition commit :: "permission \<Rightarrow> SensorLogger \<Rightarrow> SensorLogger" where
  "commit perm s = (if logging s \<noteq> effLogging s then effect perm (cleanup s) else s)"

subsection \<open>The commands (lines 232--300)\<close>

text \<open>
  \<^verbatim>\<open>startNew\<close>: \<open>formattedDate\<close> and \<open>now\<close> are what \<^verbatim>\<open>formatDate(new Date())\<close> and
  \<^verbatim>\<open>new Date()\<close> give, \<open>setDocOk\<close> whether \<^verbatim>\<open>setDoc\<close> resolves, \<open>perm\<close> the status of the
  permission request of line 257, \<open>position\<close> what \<^verbatim>\<open>getCurrentPositionAsync\<close> resolves
  to (\<open>None\<close> when it rejects: the function then ends at line 259).
\<close>

definition startNew ::
    "string \<Rightarrow> string \<Rightarrow> real \<Rightarrow> bool \<Rightarrow> permission \<Rightarrow> LocationObject option
       \<Rightarrow> SensorLogger \<Rightarrow> SensorLogger" where
  "startNew vehicleType formattedDate now setDocOk perm position s =
     (let s1 = s\<lparr> currentVehicleTypeRef := vehicleType \<rparr>;
          call = SetDoc formattedDate
                   \<lparr> created_at = now, session_id = formattedDate, status = ''active'',
                     device_speed_check = ''enabled'', vehicletype = vehicleType \<rparr>
      in if \<not> setDocOk
         then s1\<lparr> firestore := firestore s1 @ [(call, False)],
                  console := console s1 @ [ErrorParentFailed] \<rparr>
         else
           (let s2 = s1\<lparr> firestore := firestore s1 @ [(call, True)],
                         console := console s1 @ [LogParentCreated formattedDate],
                         sessionId := Some formattedDate,
                         log_list := [],
                         sampleBuffer := [],
                         latestSpeed := 0,
                         lastLocationRef := None \<rparr>
            in if perm = Granted
               then (case position of
                       None \<Rightarrow> s2
                     | Some loc \<Rightarrow>
                         s2\<lparr> latestLocation :=
                               \<lparr> latitude = c_latitude loc, longitude = c_longitude loc \<rparr>,
                             latestSpeed :=
                               (case c_speed loc of
                                  None \<Rightarrow> 0
                                | Some v \<Rightarrow> if v \<noteq> 0 then v * 3.6 else 0),
                             logging := True \<rparr>)
               else s2\<lparr> logging := True \<rparr>))"

definition pause :: "SensorLogger \<Rightarrow> SensorLogger" where
  "pause s = s\<lparr> logging := False, sampleBuffer := [] \<rparr>"

definition resume :: "SensorLogger \<Rightarrow> SensorLogger" where
  "resume s = s\<lparr> logging := True \<rparr>"

definition clear :: "SensorLogger \<Rightarrow> SensorLogger" where
  "clear s =
     s\<lparr> logging := False,
        log_list := [],
        sessionId := None,
        sampleBuffer := [],
        latestSpeed := 0,
        lastLocationRef := None,
        currentVehicleTypeRef := [],
        accelerometerSub := None,
        locationWatcher := None \<rparr>"

subsection \<open>Runs of the component\<close>

text \<open>
  What can happen to a mounted provider: one of the four commands, a sample or a fix
  delivered by the platform, a tick of the one-second timer. A command carries what
  the outside world answers while it runs; \<open>StartNew\<close> and \<open>Resume\<close> end with the
  status that \<^verbatim>\<open>setupSensors\<close> gets if the effect runs again. Every event is one
  step: a command, with the render and the effect that follow it, is over before
  the next sample, fix or tick arrives.
\<close>

datatype event =
    StartNew string string real bool permission "LocationObject option" permission
  | Pause
  | Resume permission
  | Clear
  | Motion real AccelData
  | LocationFix real LocationObject
  | Tick real bool

text \<open>
  The platform calls a listener only while its subscription stands, and the timer
  fires only while it is set. After \<open>Pause\<close> and \<open>Clear\<close> the effect runs with
  \<^verbatim>\<open>logging = false\<close> and \<^verbatim>\<open>setupSensors\<close> returns before it asks for the permission.
\<close>

fun step :: "event \<Rightarrow> SensorLogger \<Rightarrow> SensorLogger" where
  "step (StartNew vehicleType formattedDate now setDocOk perm position perm') s =
     commit perm' (startNew vehicleType formattedDate now setDocOk perm position s)"
| "step Pause s = commit Undetermined (pause s)"
| "step (Resume perm') s = commit perm' (resume s)"
| "step Clear s = commit Undetermined (clear s)"
| "step (Motion now data) s =
     (if accelerometerSub s = Some Subscribed then accelListener now data s else s)"
| "step (LocationFix now location) s =
     (if locationWatcher s = Some Subscribed then locationCallback now location s else s)"
| "step (Tick now ok) s =
     (if intervalId s then uploadBatchToFirestore (effSessionId s) now ok s else s)"

definition run :: "event list \<Rightarrow> SensorLogger" where
  "run evs = fold step evs init"

text \<open>The batch documents that exist in the store, with the session they were filed under.\<close>

fun createdBatches :: "(request \<times> bool) list \<Rightarrow> (string \<times> Batch) list" where
  "createdBatches [] = []"
| "createdBatches ((AddDoc sid doc, True) # calls) = (sid, doc) # createdBatches calls"
| "createdBatches (_ # calls) = createdBatches calls"

subsection \<open>Predicates on runs\<close>

text \<open>The events that come from the platform and the timer, not from the user.\<close>

fun sensorEvent :: "event \<Rightarrow> bool" where
  "sensorEvent (Motion now data) = True"
| "sensorEvent (LocationFix now location) = True"
| "sensorEvent (Tick now ok) = True"
| "sensorEvent _ = False"


text \<open>
  What every run keeps true: the effect has run for the current value of \<^verbatim>\<open>logging\<close>,
  the timer and the subscriptions stand only while \<^verbatim>\<open>logging\<close> is true, and the
  closure of the timer has no session id when the component has none.
\<close>

definition consistent :: "SensorLogger \<Rightarrow> bool" where
  "consistent s =
     (active s \<and> effLogging s = logging s \<and> intervalId s = logging s
      \<and> (accelerometerSub s = Some Subscribed \<longrightarrow> logging s)
      \<and> (locationWatcher s = Some Subscribed \<longrightarrow> logging s)
      \<and> (sessionId s = None \<longrightarrow> logging s \<longrightarrow> effSessionId s = None))"

section \<open>Double precision\<close>

text \<open>
  The numbers of the program are binary64 floating-point numbers, and lines 173--175
  round three times: each product and the sum. A finite binary64 number is
  modelled as an integer mantissa and a binary exponent; an operation computes the
  exact result and rounds it to 53 significant bits, to nearest, ties to even.
  Overflow, subnormal numbers, infinities and NaN are left out: the model is that
  of the program while all results have a magnitude between \<open>2\<^sup>-\<^sup>1\<^sup>0\<^sup>2\<^sup>2\<close> and
  \<open>2\<^sup>1\<^sup>0\<^sup>2\<^sup>3\<close>, or are zero.
\<close>

record binary64 =
  mantissa :: int
  exponent :: int

definition value64 :: "binary64 \<Rightarrow> real" where
  "value64 a = real_of_int (mantissa a) * 2 powr real_of_int (exponent a)"

text \<open>The number of binary digits of a natural number.\<close>

fun nbits :: "nat \<Rightarrow> nat" where
  "nbits n = (if n = 0 then 0 else 1 + nbits (n div 2))"

declare nbits.simps [simp del]

text \<open>\<open>m \<times> 2\<^sup>e\<close> rounded to 53 significant bits.\<close>

definition round53 :: "int \<Rightarrow> int \<Rightarrow> binary64" where
  "round53 m e =
     (let n = nbits (nat \<bar>m\<bar>)
      in if n \<le> 53 then \<lparr> mantissa = m, exponent = e \<rparr>
         else
           (let d = n - 53;
                q = \<bar>m\<bar> div 2 ^ d;
                r = \<bar>m\<bar> mod 2 ^ d;
                h = 2 ^ (d - 1);
                q' = (if h < r \<or> (r = h \<and> odd q) then q + 1 else q)
            in \<lparr> mantissa = sgn m * q', exponent = e + int d \<rparr>))"

definition mul64 :: "binary64 \<Rightarrow> binary64 \<Rightarrow> binary64" where
  "mul64 a b = round53 (mantissa a * mantissa b) (exponent a + exponent b)"

definition add64 :: "binary64 \<Rightarrow> binary64 \<Rightarrow> binary64" where
  "add64 a b =
     (let e = min (exponent a) (exponent b)
      in round53 (mantissa a * 2 ^ nat (exponent a - e) + mantissa b * 2 ^ nat (exponent b - e)) e)"

definition sub64 :: "binary64 \<Rightarrow> binary64 \<Rightarrow> binary64" where
  "sub64 a b = add64 a \<lparr> mantissa = - mantissa b, exponent = exponent b \<rparr>"

text \<open>JavaScript's \<^verbatim>\<open>==\<close> on two finite numbers: they have the same value.\<close>

definition eq64 :: "binary64 \<Rightarrow> binary64 \<Rightarrow> bool" where
  "eq64 a b =
     (let e = min (exponent a) (exponent b)
      in mantissa a * 2 ^ nat (exponent a - e) = mantissa b * 2 ^ nat (exponent b - e))"

definition one64 :: binary64 where
  "one64 = \<lparr> mantissa = 1, exponent = 0 \<rparr>"

text \<open>
  The literal \<^verbatim>\<open>0.8\<close>: the binary64 number nearest to 4/5, which is
  \<open>7205759403792794 \<times> 2\<^sup>-\<^sup>5\<^sup>3\<close> (in hexadecimal \<^verbatim>\<open>0x1.999999999999ap-1\<close>).
\<close>

definition SMOOTHING_FACTOR64 :: binary64 where
  "SMOOTHING_FACTOR64 = \<lparr> mantissa = 7205759403792794, exponent = - 53 \<rparr>"

text \<open>Lines 173--175 with the roundings of the program.\<close>

definition smooth64 :: "binary64 \<Rightarrow> binary64 \<Rightarrow> binary64" where
  "smooth64 previousSmoothed newRaw =
     add64 (mul64 previousSmoothed (sub64 one64 SMOOTHING_FACTOR64))
           (mul64 newRaw SMOOTHING_FACTOR64)"

subsection \<open>The distance helper and the speed derivation in double precision\<close>

text \<open>
  A number of the program is NaN or a finite binary64 number. An operation with a
  NaN operand gives NaN, and a comparison with NaN is false.
\<close>

datatype num64 = NaN | Num binary64

text \<open>
  The quotient rounded to 53 bits: the integer quotient is taken with at least 56
  bits, and one more bit records whether the division left a remainder.
\<close>

definition div64 :: "binary64 \<Rightarrow> binary64 \<Rightarrow> binary64" where
  "div64 a b =
     (let k = 56 + nbits (nat \<bar>mantissa b\<bar>);
          n = \<bar>mantissa a\<bar> * 2 ^ k;
          q = n div \<bar>mantissa b\<bar>;
          sticky = (if n mod \<bar>mantissa b\<bar> = 0 then 0 else 1)
      in round53 (sgn (mantissa a) * sgn (mantissa b) * (2 * q + sticky))
           (exponent a - exponent b - int k - 1))"

fun times64 :: "num64 \<Rightarrow> num64 \<Rightarrow> num64" where
  "times64 (Num a) (Num b) = Num (mul64 a b)"
| "times64 _ _ = NaN"

fun plus64 :: "num64 \<Rightarrow> num64 \<Rightarrow> num64" where
  "plus64 (Num a) (Num b) = Num (add64 a b)"
| "plus64 _ _ = NaN"

fun minus64 :: "num64 \<Rightarrow> num64 \<Rightarrow> num64" where
  "minus64 (Num a) (Num b) = Num (sub64 a b)"
| "minus64 _ _ = NaN"

text \<open>
  A division by zero gives an infinity or NaN in JavaScript; infinities are outside
  this model, and the code modelled here divides by 180, by 2, by 1000 and by a
  time difference it has found positive.
\<close>

fun over64 :: "num64 \<Rightarrow> num64 \<Rightarrow> num64" where
  "over64 (Num a) (Num b) = (if mantissa b = 0 then NaN else Num (div64 a b))"
| "over64 _ _ = NaN"

definition less64 :: "binary64 \<Rightarrow> binary64 \<Rightarrow> bool" where
  "less64 a b =
     (let e = min (exponent a) (exponent b)
      in mantissa a * 2 ^ nat (exponent a - e) < mantissa b * 2 ^ nat (exponent b - e))"

text \<open>\<^verbatim>\<open>x < y\<close>, \<^verbatim>\<open>x > y\<close> and \<^verbatim>\<open>x >= y\<close>.\<close>

fun lt64 :: "num64 \<Rightarrow> num64 \<Rightarrow> bool" where
  "lt64 (Num a) (Num b) = less64 a b"
| "lt64 _ _ = False"

fun gt64 :: "num64 \<Rightarrow> num64 \<Rightarrow> bool" where
  "gt64 (Num a) (Num b) = less64 b a"
| "gt64 _ _ = False"

fun ge64 :: "num64 \<Rightarrow> num64 \<Rightarrow> bool" where
  "ge64 (Num a) (Num b) = (\<not> less64 a b)"
| "ge64 _ _ = False"

text \<open>An integer literal of the program (below \<open>2\<^sup>5\<^sup>3\<close> in magnitude).\<close>

definition int64 :: "int \<Rightarrow> num64" where
  "int64 n = Num \<lparr> mantissa = n, exponent = 0 \<rparr>"

text \<open>
  \<^verbatim>\<open>Math.sin\<close>, \<^verbatim>\<open>Math.cos\<close>, \<^verbatim>\<open>Math.sqrt\<close> and \<^verbatim>\<open>Math.atan2\<close> belong to the platform, not
  to the program: on finite numbers the language leaves their results to the
  implementation, and they are parameters here. What the language fixes is in the
  four functions below: NaN for a NaN argument, and NaN for the square root of a
  negative number.
\<close>

record MathLib =
  sinF :: "binary64 \<Rightarrow> binary64"
  cosF :: "binary64 \<Rightarrow> binary64"
  sqrtF :: "binary64 \<Rightarrow> binary64"
  atan2F :: "binary64 \<Rightarrow> binary64 \<Rightarrow> binary64"

definition Math_sin :: "MathLib \<Rightarrow> num64 \<Rightarrow> num64" where
  "Math_sin lib x = (case x of NaN \<Rightarrow> NaN | Num a \<Rightarrow> Num (sinF lib a))"

definition Math_cos :: "MathLib \<Rightarrow> num64 \<Rightarrow> num64" where
  "Math_cos lib x = (case x of NaN \<Rightarrow> NaN | Num a \<Rightarrow> Num (cosF lib a))"

definition Math_sqrt :: "MathLib \<Rightarrow> num64 \<Rightarrow> num64" where
  "Math_sqrt lib x =
     (case x of NaN \<Rightarrow> NaN | Num a \<Rightarrow> if mantissa a < 0 then NaN else Num (sqrtF lib a))"

definition Math_atan2 :: "MathLib \<Rightarrow> num64 \<Rightarrow> num64 \<Rightarrow> num64" where
  "Math_atan2 lib y x =
     (case y of NaN \<Rightarrow> NaN
      | Num a \<Rightarrow> (case x of NaN \<Rightarrow> NaN | Num b \<Rightarrow> Num (atan2F lib a b)))"

text \<open>
  \<^verbatim>\<open>Math.PI\<close>, the binary64 number nearest to \<open>\<pi>\<close> (\<^verbatim>\<open>0x1.921fb54442d18p+1\<close>), and the
  literal \<^verbatim>\<open>3.6\<close>, the one nearest to 18/5 (\<^verbatim>\<open>0x1.ccccccccccccdp+1\<close>).
\<close>

definition Math_PI :: num64 where
  "Math_PI = Num \<lparr> mantissa = 7074237752028440, exponent = - 51 \<rparr>"

definition literal_3_6 :: num64 where
  "literal_3_6 = Num \<lparr> mantissa = 8106479329266893, exponent = - 51 \<rparr>"

text \<open>Lines 59--61 and 39--57, operation by operation.\<close>

definition deg2rad64 :: "num64 \<Rightarrow> num64" where
  "deg2rad64 deg = times64 deg (over64 Math_PI (int64 180))"

definition getDistanceFromLatLonInMeters64 ::
    "MathLib \<Rightarrow> num64 \<Rightarrow> num64 \<Rightarrow> num64 \<Rightarrow> num64 \<Rightarrow> num64" where
  "getDistanceFromLatLonInMeters64 lib lat1 lon1 lat2 lon2 =
     (let R = int64 6371;
          dLat = deg2rad64 (minus64 lat2 lat1);
          dLon = deg2rad64 (minus64 lon2 lon1);
          a = plus64
                (times64 (Math_sin lib (over64 dLat (int64 2)))
                         (Math_sin lib (over64 dLat (int64 2))))
                (times64
                   (times64
                      (times64 (Math_cos lib (deg2rad64 lat1)) (Math_cos lib (deg2rad64 lat2)))
                      (Math_sin lib (over64 dLon (int64 2))))
                   (Math_sin lib (over64 dLon (int64 2))));
          c = times64 (int64 2)
                (Math_atan2 lib (Math_sqrt lib a) (Math_sqrt lib (minus64 (int64 1) a)));
          d = times64 R c
      in times64 d (int64 1000))"

text \<open>Lines 146--164, with \<^verbatim>\<open>coords.speed\<close> a number or \<^verbatim>\<open>null\<close>.\<close>

record Fix64 =
  lat64 :: num64
  lng64 :: num64
  time64 :: num64

definition currentSpeedKmh64 ::
    "MathLib \<Rightarrow> num64 option \<Rightarrow> Fix64 option \<Rightarrow> num64 \<Rightarrow> num64 \<Rightarrow> num64 \<Rightarrow> num64" where
  "currentSpeedKmh64 lib speed lastLocation lat2 lon2 timestamp =
     (let manual =
        (case lastLocation of
           None \<Rightarrow> int64 0
         | Some l \<Rightarrow>
             (let distMeters =
                    getDistanceFromLatLonInMeters64 lib (lat64 l) (lng64 l) lat2 lon2;
                  timeDiffSeconds = over64 (minus64 timestamp (time64 l)) (int64 1000)
              in if gt64 timeDiffSeconds (int64 0)
                 then times64 (over64 distMeters timeDiffSeconds) literal_3_6
                 else int64 0))
      in case speed of
           None \<Rightarrow> manual
         | Some v \<Rightarrow> if ge64 v (int64 0) then times64 v literal_3_6 else manual)"

text \<open>Lines 173--175 and the test of line 185 on these numbers.\<close>

definition smoothNum :: "num64 \<Rightarrow> num64 \<Rightarrow> num64" where
  "smoothNum previousSmoothed newRaw =
     plus64 (times64 previousSmoothed (minus64 (int64 1) (Num SMOOTHING_FACTOR64)))
            (times64 newRaw (Num SMOOTHING_FACTOR64))"

definition belowGate :: "num64 \<Rightarrow> bool" where
  "belowGate latest = lt64 latest (int64 5)"

section \<open>Sample inputs\<close>

text \<open>
  Concrete inputs for the examples below: a fix at 10 m/s and one at 1 m/s, an
  accelerometer reading, the log entry the listener builds from that reading after
  the first fix, and a short ride (a session started with the permission granted,
  seeded at 36 km/h, and one sample taken).
\<close>

abbreviation fix10 :: LocationObject where
  "fix10 \<equiv> \<lparr> c_latitude = 3, c_longitude = 101, c_speed = Some 10, c_timestamp = 1000 \<rparr>"

abbreviation fix1 :: LocationObject where
  "fix1 \<equiv> \<lparr> c_latitude = 3, c_longitude = 101, c_speed = Some 1, c_timestamp = 1000 \<rparr>"

abbreviation acc0 :: AccelData where
  "acc0 \<equiv> \<lparr> d_x = 1, d_y = 2, d_z = 3 \<rparr>"

abbreviation entry0 :: "string \<Rightarrow> LogEntry" where
  "entry0 vt \<equiv> \<lparr> e_x = 1, e_y = 2, e_z = 3, e_timestamp = 2000, e_latitude = 3,
       e_longitude = 101, e_speed = 36, e_vehicletype = vt \<rparr>"

abbreviation trip :: "event list" where
  "trip \<equiv> [StartNew ''car'' ''2024-05-01-10-00-00'' 0 True Granted (Some fix10) Granted,
            Motion 2000 acc0]"

abbreviation crawl :: "event list" where
  "crawl \<equiv> [StartNew ''car'' ''2024-05-01-10-00-00'' 0 True Granted (Some fix1) Granted]"

text \<open>
  Two fixes that are nearly antipodal, (2.5, 0) and (-2.5, 180), a second apart.
\<close>

abbreviation north :: Fix64 where
  "north \<equiv> \<lparr> lat64 = Num \<lparr> mantissa = 5, exponent = - 1 \<rparr>, lng64 = int64 0,
              time64 = int64 1000 \<rparr>"

abbreviation south_lat :: num64 where
  "south_lat \<equiv> Num \<lparr> mantissa = - 5, exponent = - 1 \<rparr>"

text \<open>
  A platform for the example. At the four arguments the helper reaches on these
  fixes its sine and cosine return the binary64 numbers nearest to the true
  values; at other arguments, and for the square root and the arc tangent, its
  results play no part.
\<close>

definition sampleMath :: MathLib where
  "sampleMath =
     \<lparr> sinF = (\<lambda>x. if x = \<lparr> mantissa = 7074237752028440, exponent = - 52 \<rparr>
                   then \<lparr> mantissa = 4503599627370496, exponent = - 52 \<rparr>
                   else \<lparr> mantissa = - 6286216213909009, exponent = - 57 \<rparr>),
       cosF = (\<lambda>x. \<lparr> mantissa = 8998626396882423, exponent = - 53 \<rparr>),
       sqrtF = (\<lambda>x. x),
       atan2F = (\<lambda>y x. y) \<rparr>"

section \<open>Properties\<close>

lemmas effect_defs = commit_def effect_def cleanup_def setupSensors_def

lemmas run_defs = run_def init_def startNew_def pause_def resume_def clear_def effect_defs
  accelListener_def locationCallback_def uploadBatchToFirestore_def falsy_def
  currentSpeedKmh_def smooth_def SMOOTHING_FACTOR_def Let_def

subsection \<open>What every run keeps true\<close>

lemma consistent_init: "consistent init"
  by (simp add: consistent_def init_def)

lemma consistent_commit:
  assumes "logging s = effLogging s \<Longrightarrow> consistent s"
  shows "consistent (commit perm s)"
  using assms by (auto simp: consistent_def effect_defs Let_def)

lemma consistent_startNew:
  assumes "consistent s"
  shows "consistent (step (StartNew vt d now ok perm pos perm') s)"
  unfolding step.simps
proof (rule consistent_commit)
  assume "logging (startNew vt d now ok perm pos s) = effLogging (startNew vt d now ok perm pos s)"
  with assms show "consistent (startNew vt d now ok perm pos s)"
    by (auto simp: consistent_def startNew_def Let_def split: option.splits if_splits)
qed

lemma consistent_pause:
  assumes "consistent s"
  shows "consistent (step Pause s)"
  unfolding step.simps
proof (rule consistent_commit)
  assume "logging (pause s) = effLogging (pause s)"
  with assms show "consistent (pause s)"
    by (auto simp: pause_def consistent_def)
qed

lemma consistent_resume:
  assumes "consistent s"
  shows "consistent (step (Resume perm') s)"
  unfolding step.simps
proof (rule consistent_commit)
  assume "logging (resume s) = effLogging (resume s)"
  with assms show "consistent (resume s)"
    by (auto simp: resume_def consistent_def)
qed

lemma consistent_clear:
  assumes "consistent s"
  shows "consistent (step Clear s)"
  unfolding step.simps
proof (rule consistent_commit)
  assume "logging (clear s) = effLogging (clear s)"
  with assms show "consistent (clear s)"
    by (auto simp: clear_def consistent_def)
qed

lemma consistent_step:
  assumes "consistent s"
  shows "consistent (step e s)"
proof (cases e)
  case (StartNew vt d now ok perm pos perm')
  then show ?thesis using assms consistent_startNew by simp
next
  case Pause
  then show ?thesis using assms consistent_pause by simp
next
  case (Resume perm')
  then show ?thesis using assms consistent_resume by simp
next
  case Clear
  then show ?thesis using assms consistent_clear by simp
next
  case (Motion now data)
  then show ?thesis using assms by (auto simp: accelListener_def consistent_def Let_def)
next
  case (LocationFix now location)
  then show ?thesis using assms by (auto simp: locationCallback_def consistent_def Let_def)
next
  case (Tick now ok)
  then show ?thesis using assms by (auto simp: uploadBatchToFirestore_def consistent_def Let_def)
qed

lemma consistent_fold: "consistent s \<Longrightarrow> consistent (fold step evs s)"
  by (induction evs arbitrary: s) (simp_all add: consistent_step)

lemma consistent_run: "consistent (run evs)"
  by (simp add: run_def consistent_fold consistent_init)

text \<open>
  While no subscription stands and the buffer is empty, samples, fixes and ticks
  leave the whole state as it is.
\<close>

lemma idle_sensors:
  assumes "accelerometerSub s \<noteq> Some Subscribed" and "locationWatcher s \<noteq> Some Subscribed"
    and "sampleBuffer s = []" and "list_all sensorEvent evs"
  shows "fold step evs s = s"
  using assms
proof (induction evs)
  case Nil
  then show ?case by simp
next
  case (Cons e evs)
  then have "step e s = s"
    by (cases e) (simp_all add: uploadBatchToFirestore_def)
  with Cons show ?case by simp
qed


subsection \<open>Starting a session\<close>

text \<open>
  Claim C1, as the spec states it: with the location permission not granted,
  \<^verbatim>\<open>startNew\<close> leaves the logging flag false. The code sets the flag whatever the
  permission request answers (line 269 is outside the test of line 258): from the
  first render, a start with the permission denied ends with \<^verbatim>\<open>logging = true\<close>.
\<close>

theorem startNew_denied_counterexample:
  "logging init = False
   \<and> logging (step (StartNew ''car'' ''2024-05-01-10-00-00'' 0 True Denied None Denied) init) \<noteq> False"
  by (simp add: run_defs)

lemma logging_commit: "logging (commit perm s) = logging s"
  by (simp add: effect_defs Let_def)

text \<open>
  Claim C1, amended. When the session record has been written and neither
  permission request is granted, \<^verbatim>\<open>startNew\<close> does set \<^verbatim>\<open>logging\<close> to true, from
  every state a run can reach, and the upload timer is running afterwards. When
  the component was not logging before, the effect then warns
  \<^verbatim>\<open>Location permission not granted\<close> on the console and subscribes neither the
  accelerometer nor the location watcher, the log and the buffer are empty, and
  whatever samples, fixes and ticks follow, the state stays as it is: nothing is
  collected and nothing is uploaded.
\<close>

theorem startNew_denied:
  assumes "perm \<noteq> Granted" and "perm' \<noteq> Granted"
  shows "logging (step (StartNew vt d now True perm pos perm') (run evs))
       \<and> intervalId (step (StartNew vt d now True perm pos perm') (run evs))
       \<and> (\<not> logging (run evs) \<and> list_all sensorEvent evs' \<longrightarrow>
            accelerometerSub (step (StartNew vt d now True perm pos perm') (run evs)) \<noteq> Some Subscribed
          \<and> locationWatcher (step (StartNew vt d now True perm pos perm') (run evs)) \<noteq> Some Subscribed
          \<and> console (step (StartNew vt d now True perm pos perm') (run evs)) =
              console (run evs) @ [LogParentCreated d, WarnPermission]
          \<and> log_list (step (StartNew vt d now True perm pos perm') (run evs)) = []
          \<and> sampleBuffer (step (StartNew vt d now True perm pos perm') (run evs)) = []
          \<and> fold step evs' (step (StartNew vt d now True perm pos perm') (run evs)) =
              step (StartNew vt d now True perm pos perm') (run evs))"
proof -
  let ?s' = "step (StartNew vt d now True perm pos perm') (run evs)"
  have lg: "logging ?s'"
    using assms(1) by (simp add: logging_commit startNew_def Let_def)
  have "consistent ?s'"
    using consistent_run by (rule consistent_step)
  with lg have iv: "intervalId ?s'" by (simp add: consistent_def)
  have rest: "accelerometerSub ?s' \<noteq> Some Subscribed \<and> locationWatcher ?s' \<noteq> Some Subscribed
      \<and> console ?s' = console (run evs) @ [LogParentCreated d, WarnPermission]
      \<and> log_list ?s' = [] \<and> sampleBuffer ?s' = [] \<and> fold step evs' ?s' = ?s'"
    if idle: "\<not> logging (run evs)" and ev: "list_all sensorEvent evs'"
  proof -
    have eff: "\<not> effLogging (run evs)"
      using consistent_run [of evs] idle by (simp add: consistent_def)
    have a: "accelerometerSub ?s' \<noteq> Some Subscribed"
      using assms eff
      by (cases "accelerometerSub (run evs)") (simp_all add: startNew_def effect_defs Let_def)
    have l: "locationWatcher ?s' \<noteq> Some Subscribed"
      using assms eff
      by (cases "locationWatcher (run evs)") (simp_all add: startNew_def effect_defs Let_def)
    have b: "sampleBuffer ?s' = []"
      using assms eff by (simp add: startNew_def effect_defs Let_def)
    have c: "console ?s' = console (run evs) @ [LogParentCreated d, WarnPermission]
        \<and> log_list ?s' = []"
      using assms eff by (simp add: startNew_def effect_defs Let_def)
    have "fold step evs' ?s' = ?s'"
      using a l b ev by (rule idle_sensors)
    with a l b c show ?thesis by simp
  qed
  from lg iv rest show ?thesis by blast
qed

theorem startNew_denied_witness:
  "Denied \<noteq> Granted \<and> \<not> logging (run [])
   \<and> list_all sensorEvent [LocationFix 1000 fix10, Motion 2000 acc0, Tick 3000 True]
   \<and> logging (step (StartNew ''car'' ''2024-05-01-10-00-00'' 0 True Denied None Denied) (run []))
   \<and> intervalId (step (StartNew ''car'' ''2024-05-01-10-00-00'' 0 True Denied None Denied) (run []))
   \<and> fold step [LocationFix 1000 fix10, Motion 2000 acc0, Tick 3000 True]
        (step (StartNew ''car'' ''2024-05-01-10-00-00'' 0 True Denied None Denied) (run [])) =
       step (StartNew ''car'' ''2024-05-01-10-00-00'' 0 True Denied None Denied) (run [])"
proof -
  have p: "Denied \<noteq> Granted" by simp
  have i: "\<not> logging (run [])" by (simp add: run_def init_def)
  have e: "list_all sensorEvent [LocationFix 1000 fix10, Motion 2000 acc0, Tick 3000 True]"
    by simp
  show ?thesis
    using p i e startNew_denied [OF p p, of "''car''" "''2024-05-01-10-00-00''" 0 None "[]"
      "[LocationFix 1000 fix10, Motion 2000 acc0, Tick 3000 True]"]
    by blast
qed

text \<open>
  When \<^verbatim>\<open>setDoc\<close> fails, \<^verbatim>\<open>startNew\<close> has done three things: it has overwritten the
  stored vehicle type (line 235 comes before the \<^verbatim>\<open>try\<close>), made the failed call
  and written an error line. Every other field is as it was.
\<close>

lemma startNew_failure_frame:
  "startNew vt d now False perm pos s =
     s\<lparr> currentVehicleTypeRef := vt,
        firestore := firestore s @
          [(SetDoc d \<lparr> created_at = now, session_id = d, status = ''active'',
                       device_speed_check = ''enabled'', vehicletype = vt \<rparr>, False)],
        console := console s @ [ErrorParentFailed] \<rparr>"
  by (simp add: startNew_def Let_def)

text \<open>
  Claim C2 (a failed \<^verbatim>\<open>setDoc\<close> leaves the prior session state, the stored vehicle
  type included, unchanged) at an input where the code breaks it. A session for a
  car is recording and has logged one sample; \<^verbatim>\<open>startNew('bus')\<close> is called and
  \<^verbatim>\<open>setDoc\<close> fails. The session id and the logging flag are those of the car's
  session, the stored vehicle type is now that of the bus, and the next sample of
  the car's session is logged as a bus sample.
\<close>

theorem startNew_failure_overwrites_vehicle_type:
  "currentVehicleTypeRef (run trip) = ''car''
   \<and> sessionId (run trip) = Some ''2024-05-01-10-00-00''
   \<and> logging (run trip)
   \<and> log_list (run trip) = [entry0 ''car'']
   \<and> currentVehicleTypeRef
        (run (trip @ [StartNew ''bus'' ''2024-05-01-10-05-00'' 300000 False Granted (Some fix10) Granted]))
       = ''bus''
   \<and> sessionId
        (run (trip @ [StartNew ''bus'' ''2024-05-01-10-05-00'' 300000 False Granted (Some fix10) Granted]))
       = Some ''2024-05-01-10-00-00''
   \<and> logging
        (run (trip @ [StartNew ''bus'' ''2024-05-01-10-05-00'' 300000 False Granted (Some fix10) Granted]))
   \<and> map e_vehicletype (log_list
        (run (trip @ [StartNew ''bus'' ''2024-05-01-10-05-00'' 300000 False Granted (Some fix10) Granted,
                      Motion 301000 acc0])))
       = [''car'', ''bus'']"
  by (simp add: run_defs)

subsection \<open>The speed gate\<close>

text \<open>
  Claim C4. A motion sample delivered while the latest smoothed speed is below
  5 km/h is discarded: neither the sample buffer nor the exposed log changes, both
  for the listener itself and for its delivery by the platform (the listener
  returns the state as it got it).
\<close>

theorem speed_gate_discards:
  assumes "latestSpeed s < 5"
  shows "sampleBuffer (accelListener now data s) = sampleBuffer s
       \<and> log_list (accelListener now data s) = log_list s
       \<and> accelListener now data s = s
       \<and> step (Motion now data) s = s"
  using assms by (simp add: accelListener_def)

text \<open>
  A session seeded at 1 m/s has a smoothed speed of 3.6 km/h; the listener is
  subscribed and running, and the sample changes nothing.
\<close>

theorem speed_gate_discards_witness:
  "latestSpeed (run crawl) < 5
   \<and> accelerometerSub (run crawl) = Some Subscribed
   \<and> active (run crawl) \<and> effLogging (run crawl)
   \<and> step (Motion 2000 acc0) (run crawl) = run crawl"
proof -
  have slow: "latestSpeed (run crawl) < 5"
    by (simp add: run_defs)
  have live: "accelerometerSub (run crawl) = Some Subscribed
      \<and> active (run crawl) \<and> effLogging (run crawl)"
    by (simp add: run_defs)
  show ?thesis
    using slow live speed_gate_discards [OF slow, of 2000 acc0] by blast
qed

subsection \<open>Pause and clear\<close>

text \<open>
  Claim C6. After \<^verbatim>\<open>pause()\<close> the sample buffer is empty whatever it held, and the
  exposed log is the one before the pause. This holds from every state, the Active
  ones among them; the buffered samples are dropped without a call to the store.
\<close>

theorem pause_drops_buffer:
  "sampleBuffer (step Pause s) = [] \<and> log_list (step Pause s) = log_list s
   \<and> firestore (step Pause s) = firestore s \<and> logging (step Pause s) = False"
  by (simp add: pause_def effect_defs Let_def)

text \<open>On the ride, the sample that was buffered is dropped and stays in the log.\<close>

lemma pause_example:
  "sampleBuffer (run trip) = [entry0 ''car'']
   \<and> sampleBuffer (run (trip @ [Pause])) = []
   \<and> log_list (run (trip @ [Pause])) = [entry0 ''car'']
   \<and> createdBatches (firestore (run (trip @ [Pause]))) = []"
  by (simp add: run_defs)

text \<open>
  Claim C7. From every state, \<^verbatim>\<open>clear()\<close> leaves the log empty and the logging flag
  false, and resets the buffer, the session id, the smoothed speed, the retained
  fix (\<^verbatim>\<open>lastLocationRef\<close>) and the vehicle type; both subscription refs are
  \<^verbatim>\<open>null\<close>. (\<^verbatim>\<open>latestLocation\<close>, the coordinates stamped on samples, is not reset.)
\<close>

theorem clear_resets:
  "log_list (step Clear s) = [] \<and> logging (step Clear s) = False
   \<and> sampleBuffer (step Clear s) = [] \<and> sessionId (step Clear s) = None
   \<and> latestSpeed (step Clear s) = 0 \<and> lastLocationRef (step Clear s) = None
   \<and> currentVehicleTypeRef (step Clear s) = []
   \<and> accelerometerSub (step Clear s) = None \<and> locationWatcher (step Clear s) = None"
  by (simp add: clear_def effect_defs Let_def)

subsection \<open>Speed derivation in exact arithmetic\<close>

text \<open>The inner term of the helper lies between 0 and 1.\<close>

lemma haversine_term_bounds:
  fixes p q y :: real
  defines "a \<equiv> (sin ((q - p) / 2))\<^sup>2 + cos p * cos q * (sin y)\<^sup>2"
  shows "0 \<le> a \<and> a \<le> 1"
proof -
  define t where "t = (sin y)\<^sup>2"
  define C where "C = cos (q - p)"
  define D where "D = cos (p + q)"
  have "(sin y)\<^sup>2 + (cos y)\<^sup>2 = 1" "0 \<le> (cos y)\<^sup>2" by simp_all
  then have t: "0 \<le> t" "t \<le> 1" unfolding t_def by (simp, linarith)
  have C: "- 1 \<le> C" "C \<le> 1" by (simp_all add: C_def)
  have D: "- 1 \<le> D" "D \<le> 1" by (simp_all add: D_def)
  have "q - p = 2 * ((q - p) / 2)" by simp
  then have "C = cos (2 * ((q - p) / 2))" unfolding C_def by (rule arg_cong)
  also have "\<dots> = 1 - 2 * (sin ((q - p) / 2))\<^sup>2" by (rule cos_double_sin)
  finally have s: "(sin ((q - p) / 2))\<^sup>2 = (1 - C) / 2" by simp
  have c: "cos p * cos q = (C + D) / 2"
    using cos_times_cos [of p q] by (simp add: C_def D_def cos_diff cos_add algebra_simps)
  have a: "a = (1 - t) * ((1 - C) / 2) + t * ((1 + D) / 2)"
    unfolding a_def s c t_def [symmetric] by (simp add: field_simps)
  define X where "X = (1 - t) * ((1 - C) / 2)"
  define Y where "Y = t * ((1 + D) / 2)"
  have "0 \<le> X" "0 \<le> Y" using t C D by (simp_all add: X_def Y_def)
  moreover have "X \<le> (1 - t) * 1" unfolding X_def using t C by (intro mult_left_mono) simp_all
  moreover have "Y \<le> t * 1" unfolding Y_def using t D by (intro mult_left_mono) simp_all
  ultimately have "0 \<le> X + Y \<and> X + Y \<le> 1" by simp
  then show ?thesis unfolding a X_def Y_def .
qed

text \<open>On such a term the arc tangent of the two square roots is the arc sine.\<close>

lemma atan2_arcsin:
  assumes "0 \<le> a" and "a \<le> 1"
  shows "atan2 (sqrt a) (sqrt (1 - a)) = arcsin (sqrt a)"
proof (cases "a = 1")
  case True
  then show ?thesis by (simp add: atan2_def)
next
  case False
  with assms have lt: "a < 1" by simp
  define y where "y = arcsin (sqrt a)"
  have r: "0 \<le> sqrt a" "sqrt a < 1" using assms lt by (simp_all add: real_sqrt_lt_1_iff)
  have sy: "sin y = sqrt a" unfolding y_def using r by (intro sin_arcsin) linarith+
  have "cos y = sqrt (1 - (sqrt a)\<^sup>2)"
    unfolding y_def using r by (intro cos_arcsin) linarith+
  then have cy: "cos y = sqrt (1 - a)" using assms by simp
  have pos: "0 < sqrt (1 - a)" using lt by simp
  have "- 1 < sqrt a" using r by linarith
  then have "- (pi / 2) < arcsin (sqrt a) \<and> arcsin (sqrt a) < pi / 2"
    using r(2) by (rule arcsin_lt_bounded)
  then have b: "- (pi / 2) < y" "y < pi / 2"
    unfolding y_def by blast+
  have "arctan (tan y) = y" using b by (rule arctan_tan)
  moreover have "tan y = sqrt a / sqrt (1 - a)" by (simp add: tan_def sy cy)
  ultimately have "arctan (sqrt a / sqrt (1 - a)) = y" by simp
  with pos show ?thesis by (simp add: atan2_def y_def)
qed

text \<open>
  In exact arithmetic the helper computes the haversine distance: it is zero
  between a point and itself, symmetric, one 360th of the circumference for one
  degree along the equator and half the circumference between antipodes.
\<close>

lemma distance_is_haversine:
  "getDistanceFromLatLonInMeters lat1 lon1 lat2 lon2 = haversineMeters lat1 lon1 lat2 lon2"
proof -
  define a where "a = (sin ((deg2rad lat2 - deg2rad lat1) / 2))\<^sup>2 +
      cos (deg2rad lat1) * cos (deg2rad lat2) * (sin ((deg2rad lon2 - deg2rad lon1) / 2))\<^sup>2"
  have b: "0 \<le> a \<and> a \<le> 1" unfolding a_def by (rule haversine_term_bounds)
  have d: "deg2rad (x - y) = deg2rad x - deg2rad y" for x y
    by (simp add: deg2rad_def left_diff_distrib)
  have "getDistanceFromLatLonInMeters lat1 lon1 lat2 lon2 =
      6371 * (2 * atan2 (sqrt a) (sqrt (1 - a))) * 1000"
    by (simp add: getDistanceFromLatLonInMeters_def Let_def d a_def power2_eq_square algebra_simps)
  also have "\<dots> = 2 * 6371000 * arcsin (sqrt a)"
    using b by (simp add: atan2_arcsin)
  finally show ?thesis by (simp add: haversineMeters_def a_def)
qed

lemma distance_values:
  "getDistanceFromLatLonInMeters la lo la lo = 0"
  "getDistanceFromLatLonInMeters 0 0 0 1 = 6371000 * pi / 180"
  "getDistanceFromLatLonInMeters 0 0 0 180 = 6371000 * pi"
proof -
  show "getDistanceFromLatLonInMeters la lo la lo = 0"
    by (simp add: distance_is_haversine haversineMeters_def)
  have "0 \<le> pi / 360" "pi / 360 \<le> pi / 2" by simp_all
  then have "arcsin (sin (pi / 360)) = pi / 360"
    by (intro arcsin_sin) linarith+
  moreover have "0 \<le> sin (pi / 360)" by (intro sin_ge_zero) simp_all
  ultimately show "getDistanceFromLatLonInMeters 0 0 0 1 = 6371000 * pi / 180"
    by (simp add: distance_is_haversine haversineMeters_def deg2rad_def)
  show "getDistanceFromLatLonInMeters 0 0 0 180 = 6371000 * pi"
    by (simp add: distance_is_haversine haversineMeters_def deg2rad_def)
qed

lemma distance_symmetric:
  "getDistanceFromLatLonInMeters lat1 lon1 lat2 lon2 =
   getDistanceFromLatLonInMeters lat2 lon2 lat1 lon1"
proof -
  have "(sin ((x - y) / 2))\<^sup>2 = (sin ((y - x) / 2))\<^sup>2" for x y :: real
  proof -
    have "(x - y) / 2 = - ((y - x) / 2)" by argo
    then show ?thesis by (simp only: sin_minus power2_minus)
  qed
  then show ?thesis
    by (simp add: distance_is_haversine haversineMeters_def mult.commute)
qed

text \<open>
  The branches of lines 146--164 in exact arithmetic. A raw speed \<open>v \<ge> 0\<close> from the
  provider gives the derived speed \<open>v \<times> 3.6\<close>. Otherwise (no raw speed, or a
  negative one): with a previous fix \<open>l\<close> and a positive time difference, the
  derived speed is the haversine distance from \<open>l\<close> divided by the time difference
  in seconds, times 3.6; with a previous fix and a time difference of zero or less
  it is 0; with no previous fix it is 0. The callback smooths this derived speed
  into \<^verbatim>\<open>latestSpeed\<close>.
\<close>

lemma derived_speed:
  "(0 \<le> v \<longrightarrow> currentSpeedKmh (Some v) prev la lo t = v * 3.6)
   \<and> (speed = None \<or> (\<exists>w. speed = Some w \<and> w < 0) \<longrightarrow>
        (0 < t - time l \<longrightarrow>
           currentSpeedKmh speed (Some l) la lo t =
             haversineMeters (lat l) (lng l) la lo / ((t - time l) / 1000) * 3.6)
      \<and> (t - time l \<le> 0 \<longrightarrow> currentSpeedKmh speed (Some l) la lo t = 0)
      \<and> currentSpeedKmh speed None la lo t = 0)
   \<and> latestSpeed (locationCallback now location s) =
        smooth (latestSpeed s)
          (currentSpeedKmh (c_speed location) (lastLocationRef s)
             (c_latitude location) (c_longitude location)
             (if c_timestamp location \<noteq> 0 then c_timestamp location else now))"
  by (auto simp: currentSpeedKmh_def locationCallback_def Let_def distance_is_haversine)

text \<open>One degree along the equator in one second is 6371 \<open>\<pi>\<close> / 180 km/s.\<close>

lemma derived_speed_example:
  "currentSpeedKmh (Some 10) None 3 101 2000 = 36
   \<and> currentSpeedKmh None (Some \<lparr> lat = 0, lng = 0, time = 1000 \<rparr>) 0 1 2000 =
       6371000 * pi / 180 * 3.6
   \<and> currentSpeedKmh (Some (- 1)) (Some \<lparr> lat = 0, lng = 0, time = 1000 \<rparr>) 0 1 500 = 0
   \<and> currentSpeedKmh None None 3 101 2000 = 0"
  by (simp add: currentSpeedKmh_def Let_def distance_values)

subsection \<open>The upload timer\<close>







text \<open>
  Claim C5, as the spec states it: every tick with \<open>N\<close> buffered samples creates
  one document with those samples and leaves the buffer empty. Two ticks with one
  buffered sample each where the code does otherwise: on the ride, a tick whose
  \<^verbatim>\<open>addDoc\<close> fails creates no document and leaves the buffer as it is; after
  \<^verbatim>\<open>resume()\<close> on the first render, with no session id, a tick makes no call at
  all and leaves the buffer as it is.
\<close>

theorem tick_counterexample:
  "sampleBuffer (run trip) = [entry0 ''car'']
   \<and> sampleBuffer (step (Tick 3000 False) (run trip)) \<noteq> []
   \<and> createdBatches (firestore (step (Tick 3000 False) (run trip))) = []
   \<and> sampleBuffer (run [Resume Granted, LocationFix 1000 fix10, Motion 2000 acc0]) = [\<lparr> e_x = 1, e_y = 2, e_z = 3, e_timestamp = 2000, e_latitude = 3,
       e_longitude = 101, e_speed = 144 / 5, e_vehicletype = [] \<rparr>]
   \<and> sampleBuffer (step (Tick 3000 True) (run [Resume Granted, LocationFix 1000 fix10, Motion 2000 acc0])) \<noteq> []
   \<and> firestore (step (Tick 3000 True) (run [Resume Granted, LocationFix 1000 fix10, Motion 2000 acc0])) = []"
  by (simp add: run_defs)

text \<open>
  Claim C5, amended. A tick with an empty buffer changes nothing: no call, no
  document. A tick of the running timer with a session id in its closure and
  \<open>N > 0\<close> buffered samples makes exactly one call to the store, for a batch whose
  \<^verbatim>\<open>data\<close> is the buffer and whose \<^verbatim>\<open>y_values\<close> are the \<^verbatim>\<open>y\<close> of its samples; the log
  is unchanged; and when that call succeeds (the document is created) the buffer
  is empty after the tick.
\<close>

theorem tick_upload:
  "(sampleBuffer s = [] \<longrightarrow> step (Tick now ok) s = s)
   \<and> (intervalId s \<and> \<not> falsy (effSessionId s) \<and> sampleBuffer s \<noteq> [] \<longrightarrow>
        firestore (step (Tick now ok) s) =
          firestore s @
            [(AddDoc (the (effSessionId s))
               \<lparr> b_timestamp = now, b_data = sampleBuffer s,
                 b_y_values = map e_y (sampleBuffer s),
                 b_location = latestLocation s, b_speed = latestSpeed s,
                 b_vehicletype = currentVehicleTypeRef s \<rparr>, ok)]
      \<and> (ok \<longrightarrow> sampleBuffer (step (Tick now ok) s) = [])
      \<and> log_list (step (Tick now ok) s) = log_list s)"
  by (simp add: uploadBatchToFirestore_def Let_def)


theorem tick_upload_witness:
  "sampleBuffer (run []) = [] \<and> step (Tick 3000 True) (run []) = run []
   \<and> intervalId (run trip) \<and> \<not> falsy (effSessionId (run trip)) \<and> sampleBuffer (run trip) \<noteq> []
   \<and> sampleBuffer (step (Tick 3000 True) (run trip)) = []
   \<and> log_list (step (Tick 3000 True) (run trip)) = log_list (run trip)"
proof -
  have e: "sampleBuffer (run []) = []" by (simp add: run_defs)
  have i: "intervalId (run trip) \<and> \<not> falsy (effSessionId (run trip)) \<and> sampleBuffer (run trip) \<noteq> []"
    by (simp add: run_defs)
  show ?thesis
    using e i tick_upload [of "run []" 3000 True] tick_upload [of "run trip" 3000 True]
    by blast
qed

subsection \<open>Ticks without a session\<close>

lemma sensor_step_no_session:
  assumes "consistent s" and "sessionId s = None" and "sensorEvent e"
  shows "sessionId (step e s) = None \<and> logging (step e s) = logging s
       \<and> firestore (step e s) = firestore s
       \<and> (\<exists>new. sampleBuffer (step e s) = sampleBuffer s @ new
                \<and> log_list (step e s) = log_list s @ new)"
proof (cases e)
  case (Motion now data)
  then show ?thesis using assms(2) by (simp add: accelListener_def Let_def)
next
  case (LocationFix now location)
  then show ?thesis using assms(2) by (simp add: locationCallback_def Let_def)
next
  case (Tick now ok)
  have "intervalId s \<Longrightarrow> falsy (effSessionId s)"
    using assms(1,2) by (simp add: consistent_def falsy_def)
  with Tick assms(2) show ?thesis by (auto simp: uploadBatchToFirestore_def)
qed (use assms(3) in simp_all)

lemma sensor_fold_no_session:
  assumes "consistent s" and "sessionId s = None" and "list_all sensorEvent evs"
  shows "logging (fold step evs s) = logging s
       \<and> firestore (fold step evs s) = firestore s
       \<and> (\<exists>new. sampleBuffer (fold step evs s) = sampleBuffer s @ new
                \<and> log_list (fold step evs s) = log_list s @ new)"
  using assms
proof (induction evs arbitrary: s)
  case Nil
  then show ?case by simp
next
  case (Cons e evs)
  from Cons.prems have e: "sensorEvent e" and evs: "list_all sensorEvent evs" by simp_all
  note one = sensor_step_no_session [OF Cons.prems(1,2) e]
  from one obtain new1 where n1: "sampleBuffer (step e s) = sampleBuffer s @ new1"
      "log_list (step e s) = log_list s @ new1" by blast
  have c: "consistent (step e s)" using Cons.prems(1) by (rule consistent_step)
  from one have n: "sessionId (step e s) = None" by simp
  note rest = Cons.IH [OF c n evs]
  from rest obtain new2 where n2:
      "sampleBuffer (fold step evs (step e s)) = sampleBuffer (step e s) @ new2"
      "log_list (fold step evs (step e s)) = log_list (step e s) @ new2" by blast
  have "sampleBuffer (fold step (e # evs) s) = sampleBuffer s @ (new1 @ new2)
      \<and> log_list (fold step (e # evs) s) = log_list s @ (new1 @ new2)"
    using n1 n2 by simp
  then have "\<exists>new. sampleBuffer (fold step (e # evs) s) = sampleBuffer s @ new
      \<and> log_list (fold step (e # evs) s) = log_list s @ new" by blast
  with one rest show ?case by simp
qed

lemma resume_frame:
  "sessionId (step (Resume perm) s) = sessionId s \<and> logging (step (Resume perm) s)
   \<and> firestore (step (Resume perm) s) = firestore s
   \<and> sampleBuffer (step (Resume perm) s) = sampleBuffer s
   \<and> log_list (step (Resume perm) s) = log_list s"
  by (simp add: resume_def effect_defs Let_def)

text \<open>
  The timer calls the \<^verbatim>\<open>uploadBatchToFirestore\<close> of the render in which \<^verbatim>\<open>logging\<close>
  last became true. After \<^verbatim>\<open>resume()\<close> on the first render and a \<^verbatim>\<open>startNew\<close> that
  succeeds, the component has a session id and the closure of the timer has none:
  the sample taken then stays in the buffer through a tick.
\<close>

lemma timer_keeps_session_of_its_render:
  "sessionId (run [Resume Granted,
       StartNew ''car'' ''2024-05-01-10-00-00'' 0 True Granted (Some fix10) Granted]) =
     Some ''2024-05-01-10-00-00''
   \<and> effSessionId (run [Resume Granted,
       StartNew ''car'' ''2024-05-01-10-00-00'' 0 True Granted (Some fix10) Granted]) = None
   \<and> sampleBuffer (run [Resume Granted,
       StartNew ''car'' ''2024-05-01-10-00-00'' 0 True Granted (Some fix10) Granted,
       Motion 2000 acc0, Tick 3000 True]) = [entry0 ''car'']
   \<and> createdBatches (firestore (run [Resume Granted,
       StartNew ''car'' ''2024-05-01-10-00-00'' 0 True Granted (Some fix10) Granted,
       Motion 2000 acc0, Tick 3000 True])) = []"
  by (simp add: run_defs)

text \<open>
  Claim C10. In every state a run can reach with \<^verbatim>\<open>sessionId = null\<close>, a tick
  leaves the state as it is, whatever the buffer holds: no call to the store, and
  the buffer and the log unchanged. Consequently, when \<^verbatim>\<open>resume()\<close> is called in
  such a state (Idle: the first render, or after \<^verbatim>\<open>clear()\<close>), then through any
  sequence of samples, fixes and ticks the logging flag is true, the trace of
  store calls is the one before \<^verbatim>\<open>resume()\<close>, and the buffer and the log have both
  grown by the same accepted samples: they pile up in the buffer and are never
  persisted.
\<close>

theorem tick_without_session:
  "(sessionId (run evs) = None \<longrightarrow> step (Tick now ok) (run evs) = run evs)
   \<and> (sessionId (run evs) = None \<and> list_all sensorEvent evs' \<longrightarrow>
        logging (fold step evs' (step (Resume perm) (run evs)))
      \<and> firestore (fold step evs' (step (Resume perm) (run evs))) = firestore (run evs)
      \<and> (\<exists>new. sampleBuffer (fold step evs' (step (Resume perm) (run evs))) =
                  sampleBuffer (run evs) @ new
               \<and> log_list (fold step evs' (step (Resume perm) (run evs))) =
                  log_list (run evs) @ new))"
proof (intro conjI impI)
  assume none: "sessionId (run evs) = None"
  have "intervalId (run evs) \<Longrightarrow> falsy (effSessionId (run evs))"
    using consistent_run [of evs] none by (simp add: consistent_def falsy_def)
  then show "step (Tick now ok) (run evs) = run evs"
    by (auto simp: uploadBatchToFirestore_def)
next
  assume h: "sessionId (run evs) = None \<and> list_all sensorEvent evs'"
  let ?s1 = "step (Resume perm) (run evs)"
  have c: "consistent ?s1" using consistent_run by (rule consistent_step)
  have n: "sessionId ?s1 = None" using h resume_frame [of perm "run evs"] by simp
  from h have l: "list_all sensorEvent evs'" by simp
  note f = sensor_fold_no_session [OF c n l]
  note r = resume_frame [of perm "run evs"]
  from f r show "logging (fold step evs' ?s1)" by simp
  from f r show "firestore (fold step evs' ?s1) = firestore (run evs)" by simp
  from f r show "\<exists>new. sampleBuffer (fold step evs' ?s1) = sampleBuffer (run evs) @ new
               \<and> log_list (fold step evs' ?s1) = log_list (run evs) @ new" by simp
qed

theorem tick_without_session_witness:
  "sessionId (run []) = None
   \<and> list_all sensorEvent [LocationFix 1000 fix10, Motion 2000 acc0, Tick 3000 True]
   \<and> step (Tick 3000 True) (run []) = run []
   \<and> firestore (fold step [LocationFix 1000 fix10, Motion 2000 acc0, Tick 3000 True]
        (step (Resume Granted) (run []))) = firestore (run [])
   \<and> sampleBuffer (fold step [LocationFix 1000 fix10, Motion 2000 acc0, Tick 3000 True]
        (step (Resume Granted) (run []))) =
       [\<lparr> e_x = 1, e_y = 2, e_z = 3, e_timestamp = 2000, e_latitude = 3,
          e_longitude = 101, e_speed = 144 / 5, e_vehicletype = [] \<rparr>]"
proof -
  have n: "sessionId (run []) = None" by (simp add: run_defs)
  have l: "list_all sensorEvent [LocationFix 1000 fix10, Motion 2000 acc0, Tick 3000 True]"
    by simp
  have b: "sampleBuffer (fold step [LocationFix 1000 fix10, Motion 2000 acc0, Tick 3000 True]
        (step (Resume Granted) (run []))) =
       [\<lparr> e_x = 1, e_y = 2, e_z = 3, e_timestamp = 2000, e_latitude = 3,
          e_longitude = 101, e_speed = 144 / 5, e_vehicletype = [] \<rparr>]"
    by (simp add: run_defs)
  show ?thesis
    using n l b
      tick_without_session [of "[]" 3000 True
        "[LocationFix 1000 fix10, Motion 2000 acc0, Tick 3000 True]" Granted]
    by blast
qed

subsection \<open>The smoothing step\<close>

text \<open>Evaluation of \<open>nbits\<close> on numerals.\<close>

lemma nbits_0: "nbits 0 = 0"
  by (simp add: nbits.simps[of 0])

lemma nbits_1: "nbits (Suc 0) = 1" "nbits 1 = 1"
  by (simp_all add: nbits.simps[of "Suc 0"] nbits.simps[of 1] nbits_0)

lemma nbits_Bit0: "nbits (numeral (Num.Bit0 k)) = 1 + nbits (numeral k)"
  by (simp add: nbits.simps[of "numeral (Num.Bit0 k)"] numeral_Bit0_div_2)

lemma nbits_Bit1: "nbits (numeral (Num.Bit1 k)) = 1 + nbits (numeral k)"
  by (simp add: nbits.simps[of "numeral (Num.Bit1 k)"] numeral_Bit1_div_2)

lemmas nbits_numeral = nbits_0 nbits_1 nbits_Bit0 nbits_Bit1

lemmas float_defs = smooth64_def mul64_def sub64_def add64_def round53_def one64_def
  SMOOTHING_FACTOR64_def Let_def

text \<open>A positive number of \<open>n\<close> bits lies between \<open>2\<^sup>n\<^sup>-\<^sup>1\<close> and \<open>2\<^sup>n\<close>.\<close>

lemma nbits_bounds: "0 < n \<Longrightarrow> 2 ^ (nbits n - 1) \<le> n \<and> n < 2 ^ nbits n"
proof (induction n rule: nbits.induct)
  case (1 n)
  show ?case
  proof (cases "n div 2 = 0")
    case True
    with "1.prems" have "n = 1" by (simp add: div_eq_0_iff) 
    then show ?thesis by (simp add: nbits_numeral)
  next
    case False
    then have pos: "0 < n div 2" by simp
    from "1.prems" have n0: "n \<noteq> 0" by simp
    note IH = "1.IH" [OF n0 pos]
    have k: "nbits n = 1 + nbits (n div 2)" using n0 by (simp add: nbits.simps[of n])
    have kpos: "0 < nbits (n div 2)" using pos by (simp add: nbits.simps[of "n div 2"])
    then have p: "(2::nat) ^ nbits (n div 2) = 2 * 2 ^ (nbits (n div 2) - 1)"
      by (cases "nbits (n div 2)") simp_all
    from IH p have lo: "2 ^ nbits (n div 2) \<le> 2 * (n div 2)" by simp
    from IH have "n div 2 + 1 \<le> 2 ^ nbits (n div 2)" by simp
    then have hi: "2 * (n div 2) + 2 \<le> 2 * 2 ^ nbits (n div 2)" by simp
    have "2 * (n div 2) \<le> n" "n < 2 * (n div 2) + 2" by presburger+
    with lo hi k show ?thesis by simp
  qed
qed

text \<open>
  Dropping the last \<open>d\<close> bits of \<open>a\<close> with the rule of \<open>round53\<close> moves \<open>a\<close> by at most
  half a unit of the bit that is kept last.
\<close>

lemma round_int:
  fixes a :: int
  assumes "0 \<le> a" and "0 < d"
  shows "\<bar>(if 2 ^ (d - 1) < a mod 2 ^ d \<or> (a mod 2 ^ d = 2 ^ (d - 1) \<and> odd (a div 2 ^ d))
           then a div 2 ^ d + 1 else a div 2 ^ d) * 2 ^ d - a\<bar> \<le> 2 ^ (d - 1)"
proof -
  define q where "q = a div 2 ^ d"
  define r where "r = a mod 2 ^ d"
  define h :: int where "h = 2 ^ (d - 1)"
  have a: "a = q * 2 ^ d + r" unfolding q_def r_def by (rule div_mult_mod_eq [symmetric])
  have hh: "(2::int) ^ d = 2 * h" using assms(2) by (cases d) (simp_all add: h_def)
  have r: "0 \<le> r" "r < 2 * h" using hh by (simp_all add: r_def flip: hh)
  have "\<bar>(if h < r \<or> (r = h \<and> odd q) then q + 1 else q) * (2 * h) - a\<bar> \<le> h"
    using r a [unfolded hh] by (auto simp: algebra_simps abs_if)
  then show ?thesis
    unfolding q_def r_def hh by (simp only: h_def)
qed


lemma powr_shift: "2 powr (real_of_int e + real d) = 2 powr real_of_int e * 2 ^ d"
  by (simp add: powr_add powr_realpow)

text \<open>Rounding to 53 bits has a relative error of at most \<open>2\<^sup>-\<^sup>5\<^sup>3\<close>.\<close>

lemma round53_error:
  "\<bar>value64 (round53 m e) - real_of_int m * 2 powr real_of_int e\<bar>
     \<le> \<bar>real_of_int m * 2 powr real_of_int e\<bar> / 2 ^ 53"
proof (cases "nbits (nat \<bar>m\<bar>) \<le> 53")
  case True
  then show ?thesis by (simp add: round53_def value64_def)
next
  case False
  define d where "d = nbits (nat \<bar>m\<bar>) - 53"
  define q' where "q' = (if 2 ^ (d - 1) < \<bar>m\<bar> mod 2 ^ d
        \<or> (\<bar>m\<bar> mod 2 ^ d = 2 ^ (d - 1) \<and> odd (\<bar>m\<bar> div 2 ^ d))
      then \<bar>m\<bar> div 2 ^ d + 1 else \<bar>m\<bar> div 2 ^ d)"
  from False have d: "0 < d" and n: "nbits (nat \<bar>m\<bar>) = d + 53" by (simp_all add: d_def)
  have m0: "m \<noteq> 0" using False by (auto simp: nbits_0)
  have r: "round53 m e = \<lparr> mantissa = sgn m * q', exponent = e + int d \<rparr>"
    using False by (simp add: round53_def Let_def d_def q'_def)
  have err: "\<bar>q' * 2 ^ d - \<bar>m\<bar>\<bar> \<le> 2 ^ (d - 1)"
    unfolding q'_def by (rule round_int) (use d in simp_all)
  have "2 ^ (nbits (nat \<bar>m\<bar>) - 1) \<le> nat \<bar>m\<bar>"
    using nbits_bounds [of "nat \<bar>m\<bar>"] m0 by simp
  then have "(2::nat) ^ (52 + d) \<le> nat \<bar>m\<bar>" by (simp add: n)
  then have "int (2 ^ (52 + d)) \<le> int (nat \<bar>m\<bar>)" by (simp only: of_nat_le_iff)
  then have "(2::int) ^ (52 + d) \<le> \<bar>m\<bar>" by simp
  moreover have "(2::int) ^ (d - 1) * 2 ^ 53 = 2 ^ (52 + d)"
    using d by (cases d) (simp_all add: power_add)
  ultimately have big: "(2::int) ^ (d - 1) * 2 ^ 53 \<le> \<bar>m\<bar>" by simp
  have v: "value64 (round53 m e) = real_of_int (sgn m * q' * 2 ^ d) * 2 powr real_of_int e"
    by (simp add: r value64_def powr_shift)
  have i1: "sgn m * q' * 2 ^ d - m = sgn m * (q' * 2 ^ d - \<bar>m\<bar>)"
    by (simp add: algebra_simps abs_sgn)
  have i2: "\<bar>sgn m * (q' * 2 ^ d - \<bar>m\<bar>)\<bar> = \<bar>q' * 2 ^ d - \<bar>m\<bar>\<bar>"
    using m0 by (simp only: abs_mult abs_sgn_eq) simp
  have "value64 (round53 m e) - real_of_int m * 2 powr real_of_int e =
      real_of_int (sgn m * q' * 2 ^ d - m) * 2 powr real_of_int e"
    unfolding v by (simp only: of_int_diff left_diff_distrib)
  then have "\<bar>value64 (round53 m e) - real_of_int m * 2 powr real_of_int e\<bar> =
      \<bar>real_of_int (sgn m * q' * 2 ^ d - m)\<bar> * \<bar>2 powr real_of_int e\<bar>"
    by (simp only: abs_mult)
  also have "\<bar>real_of_int (sgn m * q' * 2 ^ d - m)\<bar> = real_of_int \<bar>q' * 2 ^ d - \<bar>m\<bar>\<bar>"
    by (simp only: i1 i2 flip: of_int_abs)
  also have "\<bar>2 powr real_of_int e\<bar> = 2 powr real_of_int e"
    by simp
  finally have "\<bar>value64 (round53 m e) - real_of_int m * 2 powr real_of_int e\<bar> =
      real_of_int \<bar>q' * 2 ^ d - \<bar>m\<bar>\<bar> * 2 powr real_of_int e" .
  also have "\<dots> \<le> real_of_int (2 ^ (d - 1)) * 2 powr real_of_int e"
  proof (rule mult_right_mono)
    show "real_of_int \<bar>q' * 2 ^ d - \<bar>m\<bar>\<bar> \<le> real_of_int (2 ^ (d - 1))"
      using err by (rule of_int_le_iff [THEN iffD2])
  qed simp
  also have "\<dots> \<le> (real_of_int \<bar>m\<bar> / 2 ^ 53) * 2 powr real_of_int e"
  proof (intro mult_right_mono)
    from big have "real_of_int (2 ^ (d - 1) * 2 ^ 53) \<le> real_of_int \<bar>m\<bar>"
      by (rule of_int_le_iff [THEN iffD2])
    then show "real_of_int (2 ^ (d - 1)) \<le> real_of_int \<bar>m\<bar> / 2 ^ 53"
      by (simp add: pos_le_divide_eq)
  qed simp
  also have "\<dots> = \<bar>real_of_int m * 2 powr real_of_int e\<bar> / 2 ^ 53"
    by (simp add: abs_mult)
  finally show ?thesis .
qed


lemma mul64_error:
  "\<bar>value64 (mul64 a b) - value64 a * value64 b\<bar> \<le> \<bar>value64 a * value64 b\<bar> / 2 ^ 53"
proof -
  have "value64 a * value64 b =
      real_of_int (mantissa a * mantissa b) * 2 powr real_of_int (exponent a + exponent b)"
    by (simp add: value64_def powr_add)
  then show ?thesis
    unfolding mul64_def by (simp only: round53_error)
qed

lemma align: "k \<le> e \<Longrightarrow> real_of_int (m * 2 ^ nat (e - k)) * 2 powr real_of_int k =
    real_of_int m * 2 powr real_of_int e"
proof -
  assume "k \<le> e"
  then have "(2::real) ^ nat (e - k) = 2 powr real_of_int (e - k)"
    by (simp add: powr_realpow [symmetric])
  then have "(2::real) ^ nat (e - k) * 2 powr real_of_int k = 2 powr real_of_int e"
    by (simp add: powr_add [symmetric])
  then show ?thesis by (simp add: mult.assoc)
qed

lemma add64_error:
  "\<bar>value64 (add64 a b) - (value64 a + value64 b)\<bar> \<le> \<bar>value64 a + value64 b\<bar> / 2 ^ 53"
proof -
  define e where "e = min (exponent a) (exponent b)"
  have A: "real_of_int (mantissa a * 2 ^ nat (exponent a - e)) * 2 powr real_of_int e =
      real_of_int (mantissa a) * 2 powr real_of_int (exponent a)"
    by (rule align) (simp add: e_def)
  have B: "real_of_int (mantissa b * 2 ^ nat (exponent b - e)) * 2 powr real_of_int e =
      real_of_int (mantissa b) * 2 powr real_of_int (exponent b)"
    by (rule align) (simp add: e_def)
  have "value64 a + value64 b =
      real_of_int (mantissa a * 2 ^ nat (exponent a - e) + mantissa b * 2 ^ nat (exponent b - e))
        * 2 powr real_of_int e"
    by (simp only: of_int_add distrib_right A B value64_def)
  then show ?thesis
    unfolding add64_def Let_def e_def [symmetric] by (simp only: round53_error)
qed

text \<open>
  \<^verbatim>\<open>1 - SMOOTHING_FACTOR\<close> is computed without a rounding error; the two weights of
  the program add up to exactly 1.
\<close>

lemma one_minus_factor:
  "sub64 one64 SMOOTHING_FACTOR64 = \<lparr> mantissa = 1801439850948198, exponent = - 53 \<rparr>"
  by (simp add: float_defs nbits_numeral)

lemma value64_factor: "value64 SMOOTHING_FACTOR64 = 7205759403792794 / 2 ^ 53"
  by (simp add: value64_def SMOOTHING_FACTOR64_def powr_minus_divide)

lemma value64_one_minus_factor:
  "value64 (sub64 one64 SMOOTHING_FACTOR64) = 1 - value64 SMOOTHING_FACTOR64"
proof -
  have "value64 (sub64 one64 SMOOTHING_FACTOR64) = 1801439850948198 / 2 ^ 53"
    by (simp add: one_minus_factor value64_def powr_minus_divide)
  then show ?thesis by (simp add: value64_factor)
qed


text \<open>
  With three roundings the step returns its argument up to a relative error of
  \<open>2\<^sup>-\<^sup>5\<^sup>2 + 2\<^sup>-\<^sup>1\<^sup>0\<^sup>6\<close>.
\<close>

lemma smooth64_fixed_point_error:
  "\<bar>value64 (smooth64 v v) - value64 v\<bar> \<le> \<bar>value64 v\<bar> * (2 / 2 ^ 53 + 1 / 2 ^ 106)"
proof -
  define x where "x = value64 v"
  define k where "k = value64 SMOOTHING_FACTOR64"
  define u :: real where "u = 1 / 2 ^ 53"
  define P where "P = value64 (mul64 v (sub64 one64 SMOOTHING_FACTOR64))"
  define Q where "Q = value64 (mul64 v SMOOTHING_FACTOR64)"
  define S where "S = value64 (smooth64 v v)"
  have k: "0 \<le> k" "k \<le> 1" by (simp_all add: k_def value64_factor)
  have u: "0 \<le> u" by (simp add: u_def)
  have "\<bar>P - x * (1 - k)\<bar> \<le> \<bar>x * (1 - k)\<bar> * u"
    using mul64_error [of v "sub64 one64 SMOOTHING_FACTOR64"]
    by (simp add: P_def x_def k_def u_def value64_one_minus_factor)
  then have hP: "\<bar>P - x * (1 - k)\<bar> \<le> \<bar>x\<bar> * (1 - k) * u"
    using k by (simp add: abs_mult)
  have "\<bar>Q - x * k\<bar> \<le> \<bar>x * k\<bar> * u"
    using mul64_error [of v SMOOTHING_FACTOR64] by (simp add: Q_def x_def k_def u_def)
  then have hQ: "\<bar>Q - x * k\<bar> \<le> \<bar>x\<bar> * k * u"
    using k by (simp add: abs_mult)
  have hS: "\<bar>S - (P + Q)\<bar> \<le> \<bar>P + Q\<bar> * u"
    using add64_error [of "mul64 v (sub64 one64 SMOOTHING_FACTOR64)" "mul64 v SMOOTHING_FACTOR64"]
    by (simp add: S_def P_def Q_def u_def smooth64_def)
  have "P + Q - x = (P - x * (1 - k)) + (Q - x * k)" by (simp add: algebra_simps)
  then have "\<bar>P + Q - x\<bar> \<le> \<bar>P - x * (1 - k)\<bar> + \<bar>Q - x * k\<bar>" by (simp only: abs_triangle_ineq)
  also have "\<dots> \<le> \<bar>x\<bar> * (1 - k) * u + \<bar>x\<bar> * k * u" using hP hQ by (rule add_mono)
  also have "\<dots> = \<bar>x\<bar> * u" by (simp add: algebra_simps)
  finally have d: "\<bar>P + Q - x\<bar> \<le> \<bar>x\<bar> * u" .
  have "\<bar>P + Q\<bar> \<le> \<bar>x\<bar> + \<bar>P + Q - x\<bar>" by linarith
  with d have "\<bar>P + Q\<bar> \<le> \<bar>x\<bar> + \<bar>x\<bar> * u" by linarith
  then have "\<bar>P + Q\<bar> * u \<le> (\<bar>x\<bar> + \<bar>x\<bar> * u) * u" using u by (rule mult_right_mono)
  with hS have "\<bar>S - (P + Q)\<bar> \<le> (\<bar>x\<bar> + \<bar>x\<bar> * u) * u" by linarith
  moreover have "\<bar>S - x\<bar> \<le> \<bar>S - (P + Q)\<bar> + \<bar>P + Q - x\<bar>" by linarith
  ultimately have "\<bar>S - x\<bar> \<le> (\<bar>x\<bar> + \<bar>x\<bar> * u) * u + \<bar>x\<bar> * u" using d by linarith
  also have "\<dots> = \<bar>x\<bar> * (2 * u + u * u)" by (simp add: algebra_simps)
  also have "2 * u + u * u = 2 / 2 ^ 53 + 1 / 2 ^ 106" by (simp add: u_def)
  finally show ?thesis by (simp only: S_def x_def)
qed

text \<open>
  The two binary64 numbers used below are the ones the program has for the
  decimal numbers 2.9 and 0.8: they are within half a unit in the last place.
\<close>

lemma value64_example:
  "\<bar>value64 \<lparr> mantissa = 6530219459687219, exponent = - 51 \<rparr> - 29 / 10\<bar> \<le> 1 / 2 ^ 52"
  "\<bar>value64 SMOOTHING_FACTOR64 - SMOOTHING_FACTOR\<bar> \<le> 1 / 2 ^ 54"
  by (simp_all add: value64_def SMOOTHING_FACTOR64_def SMOOTHING_FACTOR_def powr_minus_divide)

text \<open>
  Claim C9, as the spec states it: \<^verbatim>\<open>v * (1 - 0.8) + v * 0.8 == v\<close> for every \<open>v\<close>. With
  the roundings of the program this fails for the binary64 number 2.9
  (\<open>6530219459687219 \<times> 2\<^sup>-\<^sup>5\<^sup>1\<close>): the step returns the number just below it,
  \<open>6530219459687218 \<times> 2\<^sup>-\<^sup>5\<^sup>1\<close>, printed as 2.8999999999999995.
\<close>

theorem smooth64_counterexample:
  "\<not> eq64 (smooth64 \<lparr> mantissa = 6530219459687219, exponent = - 51 \<rparr>
                     \<lparr> mantissa = 6530219459687219, exponent = - 51 \<rparr>)
            \<lparr> mantissa = 6530219459687219, exponent = - 51 \<rparr>"
  by (simp add: float_defs eq64_def nbits_numeral)

lemma smooth64_example:
  "smooth64 \<lparr> mantissa = 6530219459687219, exponent = - 51 \<rparr>
            \<lparr> mantissa = 6530219459687219, exponent = - 51 \<rparr> =
     \<lparr> mantissa = 6530219459687218, exponent = - 51 \<rparr>"
  by (simp add: float_defs nbits_numeral)

text \<open>
  Claim C9, amended. In exact arithmetic every \<open>v\<close> is a fixed point of the
  smoothing step with alpha = 0.8 when the new raw sample equals the previous
  smoothed value; in the binary64 arithmetic of the program the result is \<open>v\<close> up
  to rounding, with a relative error of at most \<open>2\<^sup>-\<^sup>5\<^sup>2 + 2\<^sup>-\<^sup>1\<^sup>0\<^sup>6\<close>.
\<close>

theorem smooth_fixed_point:
  "smooth v v = v
   \<and> \<bar>value64 (smooth64 a a) - value64 a\<bar> \<le> \<bar>value64 a\<bar> * (2 / 2 ^ 53 + 1 / 2 ^ 106)"
proof
  show "smooth v v = v"
    by (simp add: smooth_def SMOOTHING_FACTOR_def algebra_simps)
  show "\<bar>value64 (smooth64 a a) - value64 a\<bar> \<le> \<bar>value64 a\<bar> * (2 / 2 ^ 53 + 1 / 2 ^ 106)"
    by (rule smooth64_fixed_point_error)
qed

subsection \<open>The distance helper in double precision\<close>

lemmas num_defs = deg2rad64_def getDistanceFromLatLonInMeters64_def currentSpeedKmh64_def
  Math_sin_def Math_cos_def Math_sqrt_def Math_atan2_def Math_PI_def literal_3_6_def int64_def
  div64_def less64_def mul64_def sub64_def add64_def round53_def Let_def

text \<open>On two finite numbers \<open>smoothNum\<close> is \<open>smooth64\<close>, and NaN stays NaN.\<close>

lemma smoothNum_Num: "smoothNum (Num p) (Num n) = Num (smooth64 p n)"
  by (simp add: smoothNum_def smooth64_def int64_def one64_def)

lemma smoothNum_NaN: "smoothNum previous NaN = NaN" "smoothNum NaN newRaw = NaN"
  by (cases previous; simp add: smoothNum_def int64_def)+

text \<open>
  The arguments the helper passes to the sine and the cosine on the two sample
  fixes, and its inner term once these return the values of the example: the term
  is \<open>1 + 2\<^sup>-\<^sup>5\<^sup>2\<close>.
\<close>

lemma helper_args:
  "over64 (deg2rad64 (minus64 south_lat (lat64 north))) (int64 2) =
     Num \<lparr> mantissa = - 6288211335136391, exponent = - 57 \<rparr>"
  "over64 (deg2rad64 (minus64 (int64 180) (lng64 north))) (int64 2) =
     Num \<lparr> mantissa = 7074237752028440, exponent = - 52 \<rparr>"
  "deg2rad64 (lat64 north) = Num \<lparr> mantissa = 6288211335136391, exponent = - 57 \<rparr>"
  "deg2rad64 south_lat = Num \<lparr> mantissa = - 6288211335136391, exponent = - 57 \<rparr>"
  by (simp_all add: num_defs nbits_numeral)

lemma helper_term:
  "plus64
     (times64 (Num \<lparr> mantissa = - 6286216213909009, exponent = - 57 \<rparr>)
              (Num \<lparr> mantissa = - 6286216213909009, exponent = - 57 \<rparr>))
     (times64
        (times64
           (times64 (Num \<lparr> mantissa = 8998626396882423, exponent = - 53 \<rparr>)
                    (Num \<lparr> mantissa = 8998626396882423, exponent = - 53 \<rparr>))
           (Num \<lparr> mantissa = 4503599627370496, exponent = - 52 \<rparr>))
        (Num \<lparr> mantissa = 4503599627370496, exponent = - 52 \<rparr>)) =
   Num \<lparr> mantissa = 4503599627370497, exponent = - 52 \<rparr>"
  by (simp add: num_defs nbits_numeral)

text \<open>
  Claim C8 (with no raw speed, a previous fix and a positive time difference the
  derived speed is the haversine distance divided by the time difference, times
  3.6) at an input where the code breaks it. The previous fix is at (2.5, 0), the
  new one at (-2.5, 180) a second later, the provider gives no speed, and the
  sine and cosine of the platform return, at the four arguments the helper
  reaches, the binary64 numbers nearest to the true values. The inner term is
  rounded to \<open>1 + 2\<^sup>-\<^sup>5\<^sup>2\<close>, the helper has no clamp and takes the square root of
  \<open>- 2\<^sup>-\<^sup>5\<^sup>2\<close>: the distance is NaN and so is the derived speed, where the haversine
  distance is half the circumference of the sphere. From then on the smoothed
  speed is NaN whatever it was, and the test of line 185 never holds.
\<close>

theorem derived_speed_not_a_number:
  assumes "sinF lib \<lparr> mantissa = - 6288211335136391, exponent = - 57 \<rparr> =
             \<lparr> mantissa = - 6286216213909009, exponent = - 57 \<rparr>"
    and "cosF lib \<lparr> mantissa = 6288211335136391, exponent = - 57 \<rparr> =
           \<lparr> mantissa = 8998626396882423, exponent = - 53 \<rparr>"
    and "cosF lib \<lparr> mantissa = - 6288211335136391, exponent = - 57 \<rparr> =
           \<lparr> mantissa = 8998626396882423, exponent = - 53 \<rparr>"
    and "sinF lib \<lparr> mantissa = 7074237752028440, exponent = - 52 \<rparr> =
           \<lparr> mantissa = 4503599627370496, exponent = - 52 \<rparr>"
  shows "getDistanceFromLatLonInMeters64 lib (lat64 north) (lng64 north) south_lat (int64 180) = NaN
       \<and> currentSpeedKmh64 lib None (Some north) south_lat (int64 180) (int64 2000) = NaN
       \<and> smoothNum previous
            (currentSpeedKmh64 lib None (Some north) south_lat (int64 180) (int64 2000)) = NaN
       \<and> \<not> belowGate (smoothNum previous
            (currentSpeedKmh64 lib None (Some north) south_lat (int64 180) (int64 2000)))"
proof -
  have a: "minus64 (int64 1) (Num \<lparr> mantissa = 4503599627370497, exponent = - 52 \<rparr>) =
      Num \<lparr> mantissa = - 1, exponent = - 52 \<rparr>"
    by (simp add: num_defs nbits_numeral)
  have s1: "Math_sin lib (over64 (deg2rad64 (minus64 south_lat (lat64 north))) (int64 2)) =
      Num \<lparr> mantissa = - 6286216213909009, exponent = - 57 \<rparr>"
    unfolding Math_sin_def helper_args by (simp add: assms)
  have s2: "Math_sin lib (over64 (deg2rad64 (minus64 (int64 180) (lng64 north))) (int64 2)) =
      Num \<lparr> mantissa = 4503599627370496, exponent = - 52 \<rparr>"
    unfolding Math_sin_def helper_args by (simp add: assms)
  have c1: "Math_cos lib (deg2rad64 (lat64 north)) =
      Num \<lparr> mantissa = 8998626396882423, exponent = - 53 \<rparr>"
    unfolding Math_cos_def helper_args by (simp add: assms)
  have c2: "Math_cos lib (deg2rad64 south_lat) =
      Num \<lparr> mantissa = 8998626396882423, exponent = - 53 \<rparr>"
    unfolding Math_cos_def helper_args by (simp add: assms)
  have d: "getDistanceFromLatLonInMeters64 lib (lat64 north) (lng64 north) south_lat (int64 180) = NaN"
    unfolding getDistanceFromLatLonInMeters64_def Let_def s1 s2 c1 c2 helper_term a
    by (simp add: Math_sqrt_def Math_atan2_def)
  have t: "gt64 (over64 (minus64 (int64 2000) (time64 north)) (int64 1000)) (int64 0)"
    by (simp add: num_defs nbits_numeral)
  have s: "currentSpeedKmh64 lib None (Some north) south_lat (int64 180) (int64 2000) = NaN"
  proof -
    from d have "getDistanceFromLatLonInMeters64 lib (Num \<lparr> mantissa = 5, exponent = - 1 \<rparr>)
        (int64 0) south_lat (int64 180) = NaN" by simp
    with t show ?thesis by (simp add: currentSpeedKmh64_def Let_def)
  qed
  from d s show ?thesis
    by (simp add: smoothNum_NaN belowGate_def)
qed

theorem derived_speed_not_a_number_witness:
  "sinF sampleMath \<lparr> mantissa = - 6288211335136391, exponent = - 57 \<rparr> =
     \<lparr> mantissa = - 6286216213909009, exponent = - 57 \<rparr>
   \<and> cosF sampleMath \<lparr> mantissa = 6288211335136391, exponent = - 57 \<rparr> =
       \<lparr> mantissa = 8998626396882423, exponent = - 53 \<rparr>
   \<and> cosF sampleMath \<lparr> mantissa = - 6288211335136391, exponent = - 57 \<rparr> =
       \<lparr> mantissa = 8998626396882423, exponent = - 53 \<rparr>
   \<and> sinF sampleMath \<lparr> mantissa = 7074237752028440, exponent = - 52 \<rparr> =
       \<lparr> mantissa = 4503599627370496, exponent = - 52 \<rparr>
   \<and> currentSpeedKmh64 sampleMath None (Some north) south_lat (int64 180) (int64 2000) = NaN"
proof -
  have 1: "sinF sampleMath \<lparr> mantissa = - 6288211335136391, exponent = - 57 \<rparr> =
      \<lparr> mantissa = - 6286216213909009, exponent = - 57 \<rparr>"
    by (simp add: sampleMath_def)
  have 2: "cosF sampleMath \<lparr> mantissa = 6288211335136391, exponent = - 57 \<rparr> =
      \<lparr> mantissa = 8998626396882423, exponent = - 53 \<rparr>"
    by (simp add: sampleMath_def)
  have 3: "cosF sampleMath \<lparr> mantissa = - 6288211335136391, exponent = - 57 \<rparr> =
      \<lparr> mantissa = 8998626396882423, exponent = - 53 \<rparr>"
    by (simp add: sampleMath_def)
  have 4: "sinF sampleMath \<lparr> mantissa = 7074237752028440, exponent = - 52 \<rparr> =
      \<lparr> mantissa = 4503599627370496, exponent = - 52 \<rparr>"
    by (simp add: sampleMath_def)
  show ?thesis
    using 1 2 3 4 derived_speed_not_a_number [OF 1 2 3 4] by blast
qed

end
